theory Spec2Isabelle
  imports Main "HOL-Library.Sublist"
begin

section \<open>The chisel client: connection lifecycle and handshake\<close>

text \<open>
  A shallow embedding of \<^verbatim>\<open>client/client.go\<close>. Everything the client obtains from
  the network, from the secure-shell library or from other packages is an explicit input
  of the model, so every function below is a pure function of the client and of what its
  collaborators answered.
\<close>

subsection \<open>Errors\<close>

text \<open>
  A Go \<^verbatim>\<open>error\<close> value is observed by the client in two ways only: through its text
  (\<^verbatim>\<open>err.Error()\<close>) and through the type assertion \<^verbatim>\<open>err.(net.Error)\<close> followed by
  \<^verbatim>\<open>Temporary()\<close>. The field \<open>net_Temporary\<close> is \<open>None\<close> when the value does not implement
  \<^verbatim>\<open>net.Error\<close> and \<open>Some t\<close> when it does and its \<^verbatim>\<open>Temporary()\<close> answers \<open>t\<close>.
\<close>

record go_error =
  Error :: string
  net_Temporary :: "bool option"

text \<open>\<^verbatim>\<open>errors.New\<close> and \<^verbatim>\<open>fmt.Errorf\<close> build plain errors: text only.\<close>

definition errors_New :: "string \<Rightarrow> go_error" where
  "errors_New s = \<lparr>Error = s, net_Temporary = None\<rparr>"

definition io_EOF :: go_error where
  "io_EOF = errors_New ''EOF''"

subsection \<open>String helpers of package strings\<close>

definition strings_HasPrefix :: "string \<Rightarrow> string \<Rightarrow> bool" where
  "strings_HasPrefix s p = (take (length p) s = p)"

fun strings_Contains :: "string \<Rightarrow> string \<Rightarrow> bool" where
  "strings_Contains [] sub = (sub = [])"
| "strings_Contains (c # cs) sub =
     (strings_HasPrefix (c # cs) sub \<or> strings_Contains cs sub)"

text \<open>\<^verbatim>\<open>strings.Replace(s, old, new, 1)\<close>: the first occurrence of \<open>old\<close> is replaced.\<close>

fun strings_Replace1 :: "string \<Rightarrow> string \<Rightarrow> string \<Rightarrow> string" where
  "strings_Replace1 [] old new = (if old = [] then new else [])"
| "strings_Replace1 (c # cs) old new =
     (if strings_HasPrefix (c # cs) old then new @ drop (length old) (c # cs)
      else c # strings_Replace1 cs old new)"

text \<open>\<^verbatim>\<open>strings.Cut\<close> at a single byte: the text before it and the text after it.\<close>

definition strings_Cut :: "string \<Rightarrow> char \<Rightarrow> string \<times> string" where
  "strings_Cut s sep = (takeWhile (\<lambda>c. c \<noteq> sep) s, drop 1 (dropWhile (\<lambda>c. c \<noteq> sep) s))"

text \<open>\<^verbatim>\<open>strings.LastIndex\<close> of a single byte; \<open>None\<close> for \<open>-1\<close>.\<close>

definition strings_LastIndex :: "string \<Rightarrow> char \<Rightarrow> nat option" where
  "strings_LastIndex s sep =
     (if sep \<in> set s
      then Some (length s - 1 - length (takeWhile (\<lambda>c. c \<noteq> sep) (rev s)))
      else None)"

fun strings_Index :: "string \<Rightarrow> string \<Rightarrow> nat option" where
  "strings_Index [] sub = (if sub = [] then Some 0 else None)"
| "strings_Index (c # cs) sub =
     (if strings_HasPrefix (c # cs) sub then Some 0
      else map_option Suc (strings_Index cs sub))"

definition byte :: "char \<Rightarrow> nat" where
  "byte c = of_char c"

definition is_letter :: "char \<Rightarrow> bool" where
  "is_letter c = ((97 \<le> byte c \<and> byte c \<le> 122) \<or> (65 \<le> byte c \<and> byte c \<le> 90))"

definition is_digit :: "char \<Rightarrow> bool" where
  "is_digit c = (48 \<le> byte c \<and> byte c \<le> 57)"

definition to_lower :: "char \<Rightarrow> char" where
  "to_lower c = (if 65 \<le> byte c \<and> byte c \<le> 90 then char_of (byte c + 32) else c)"

text \<open>
  \<^verbatim>\<open>strconv.Quote\<close>: the text between double quotes, with a backslash before a double
  quote and before a backslash, the short escapes for bell, backspace, form feed, new
  line, carriage return, tab and vertical tab, and \<^verbatim>\<open>\x\<close> with two hexadecimal digits
  for the other control bytes. Bytes above 127 are kept, as \<^verbatim>\<open>strconv.Quote\<close> keeps
  printable characters encoded in UTF-8.
\<close>

definition lowerhex :: "nat \<Rightarrow> char" where
  "lowerhex n = ''0123456789abcdef'' ! (n mod 16)"

definition quote_byte :: "char \<Rightarrow> string" where
  "quote_byte c =
     (if c = CHR 0x22 \<or> c = CHR 0x5C then [CHR 0x5C, c]
      else if byte c = 7 then [CHR 0x5C, CHR ''a'']
      else if byte c = 8 then [CHR 0x5C, CHR ''b'']
      else if byte c = 12 then [CHR 0x5C, CHR ''f'']
      else if byte c = 10 then [CHR 0x5C, CHR ''n'']
      else if byte c = 13 then [CHR 0x5C, CHR ''r'']
      else if byte c = 9 then [CHR 0x5C, CHR ''t'']
      else if byte c = 11 then [CHR 0x5C, CHR ''v'']
      else if byte c < 32 \<or> byte c = 127 then
        [CHR 0x5C, CHR ''x'', lowerhex (byte c div 16), lowerhex (byte c mod 16)]
      else [c])"

definition quote :: "string \<Rightarrow> string" where
  "quote s = [CHR 0x22] @ concat (map quote_byte s) @ [CHR 0x22]"

subsection \<open>Durations\<close>

text \<open>A \<^verbatim>\<open>time.Duration\<close> is a count of nanoseconds.\<close>

type_synonym duration = int

definition time_Millisecond :: duration where
  "time_Millisecond = 1000000"

definition time_Second :: duration where
  "time_Second = 1000 * time_Millisecond"

definition time_Minute :: duration where
  "time_Minute = 60 * time_Second"

subsection \<open>Data model\<close>

text \<open>
  The fields of \<^verbatim>\<open>url.URL\<close> that parsing fills in. \<open>User\<close> is \<open>None\<close> for a nil
  \<^verbatim>\<open>*Userinfo\<close>; otherwise it holds the user name and the password, if one was set.
\<close>

record URL =
  Scheme :: string
  Opaque :: string
  User :: "(string \<times> string option) option"
  Host :: string
  Path :: string
  RawQuery :: string
  Fragment :: string

text \<open>A dial function supplied by the caller; the client never calls it itself.\<close>

datatype DialFunc = DialFunc nat

record Config =
  Fingerprint :: string
  Auth :: string
  KeepAlive :: duration
  MaxRetryCount :: int
  MaxRetryInterval :: duration
  Server :: string
  Proxy :: string
  Remotes :: "string list"
  Headers :: "(string \<times> string list) list"
  DialContext :: "DialFunc option"

text \<open>
  \<^verbatim>\<open>settings.Remote\<close> is declared in another package; the client reads its three
  flags only. \<open>spec\<close> stands for the remaining fields of the decoded remote.
\<close>

record Remote =
  Socks :: bool
  Reverse :: bool
  Stdio :: bool
  spec :: string

record settings_Config =
  Version :: string
  computed_Remotes :: "Remote list"

record ssh_ClientConfig =
  ssh_User :: string
  ssh_Password :: string
  ClientVersion :: string
  Timeout :: duration

record tunnel_Config =
  Inbound :: bool
  Outbound :: bool
  tunnel_Socks :: bool

text \<open>
  The client. \<open>server\<close> is the resolved endpoint: the code stores its text
  \<^verbatim>\<open>u.String()\<close>, the model keeps the URL value \<open>u\<close> that the text is printed from.
  \<open>stop\<close> is \<open>None\<close> while the field is nil; after \<^verbatim>\<open>Start\<close> it is \<open>Some b\<close>, the
  cancel function of the scope that \<^verbatim>\<open>Start\<close> created, where \<open>b\<close> tells whether that scope
  has been cancelled. \<open>eg\<close> is \<open>None\<close> while the field is nil. The
  \<^verbatim>\<open>HostKeyCallback\<close> of the secure-shell configuration is \<open>verifyServer\<close> below.
\<close>

record Client =
  config :: Config
  computed :: settings_Config
  sshConfig :: ssh_ClientConfig
  proxyURL :: "URL option"
  server :: URL
  stop :: "bool option"
  eg :: "unit option"
  tunnel :: tunnel_Config

text \<open>A call either returns or panics (a nil pointer dereference).\<close>

datatype 'a outcome = Returned 'a | Panicked

subsection \<open>Host key verification\<close>

text \<open>
  \<^verbatim>\<open>verifyServer\<close> reads the configured fingerprint and the fingerprint that
  \<^verbatim>\<open>ccrypto.FingerprintKey\<close> computes for the presented key. The key enters the model
  through that computed fingerprint \<open>got\<close>. The result is the returned error, \<open>None\<close>
  for \<^verbatim>\<open>nil\<close>.
\<close>

definition verifyServer :: "string \<Rightarrow> string \<Rightarrow> go_error option" where
  "verifyServer expect got =
     (if expect \<noteq> [] \<and> \<not> strings_HasPrefix got expect
      then Some (errors_New (''Invalid fingerprint ('' @ got @ '')''))
      else None)"

subsection \<open>Outbound proxy\<close>

datatype dial_strategy =
  Direct
| ConnectProxy URL
| Socks5 string "(string \<times> string) option"

text \<open>
  \<^verbatim>\<open>setProxy\<close> configures the dialer and returns an error or nil. \<open>socks5_result\<close>
  is the error that \<^verbatim>\<open>proxy.SOCKS5\<close> returned, if any.
\<close>

definition setProxy :: "URL \<Rightarrow> go_error option \<Rightarrow> go_error + dial_strategy" where
  "setProxy u socks5_result =
     (if \<not> strings_HasPrefix (Scheme u) ''socks'' then Inr (ConnectProxy u)
      else if Scheme u \<noteq> ''socks'' \<and> Scheme u \<noteq> ''socks5h'' then
        Inl (errors_New (''unsupported socks proxy type: '' @ Scheme u @
               '':// (only socks5h:// or socks:// is supported)''))
      else
        (let auth = (case User u of
                       None \<Rightarrow> None
                     | Some (name, pw) \<Rightarrow>
                         Some (name, case pw of None \<Rightarrow> [] | Some p \<Rightarrow> p))
         in case socks5_result of
              Some err \<Rightarrow> Inl err
            | None \<Rightarrow> Inr (Socks5 (Host u) auth)))"

subsection \<open>One connection attempt\<close>

text \<open>
  What the outside world answers during one iteration of the connection loop:
  whether the context is already done when the attempt starts, the error of
  \<^verbatim>\<open>proxy.SOCKS5\<close>, of the web-socket dial, of \<^verbatim>\<open>ssh.NewClientConn\<close>, of
  \<^verbatim>\<open>SendRequest\<close> and its reply payload, the error \<^verbatim>\<open>BindSSH\<close> ends with, and which case
  of the \<^verbatim>\<open>select\<close> after the delay fires (\<open>sleep_cancelled\<close>: the context was done first).
\<close>

record attempt_env =
  ctx_done :: bool
  socks5_err :: "go_error option"
  dial_err :: "go_error option"
  handshake_err :: "go_error option"
  send_err :: "go_error option"
  configerr :: string
  bind_err :: "go_error option"
  sleep_cancelled :: bool

text \<open>The test \<^verbatim>\<open>n, ok := err.(net.Error); ok && !n.Temporary()\<close>.\<close>

definition non_temporary_net_error :: "go_error option \<Rightarrow> bool" where
  "non_temporary_net_error err =
     (case err of
        None \<Rightarrow> False
      | Some e \<Rightarrow> (case net_Temporary e of None \<Rightarrow> False | Some t \<Rightarrow> \<not> t))"

text \<open>The result is \<^verbatim>\<open>(connected, retry, err)\<close>.\<close>

definition connectionOnce :: "Client \<Rightarrow> attempt_env \<Rightarrow> bool \<times> bool \<times> go_error option" where
  "connectionOnce c e =
     (if ctx_done e then (False, False, Some io_EOF)
      else
        case (case proxyURL c of
                None \<Rightarrow> None
              | Some p \<Rightarrow> (case setProxy p (socks5_err e) of
                            Inl err \<Rightarrow> Some err
                          | Inr d \<Rightarrow> None)) of
          Some err \<Rightarrow> (False, False, Some err)
        | None \<Rightarrow>
        (case dial_err e of
          Some err \<Rightarrow> (False, True, Some err)
        | None \<Rightarrow>
        (case handshake_err e of
          Some err \<Rightarrow>
            (let retry =
               (if strings_Contains (Error err) ''unable to authenticate'' then False
                else if non_temporary_net_error (Some err) then False
                else True)
             in (False, retry, Some err))
        | None \<Rightarrow>
        (case send_err e of
          Some err \<Rightarrow> (False, False, Some err)
        | None \<Rightarrow>
        (if length (configerr e) > 0 then
           (False, False, Some (errors_New (configerr e)))
         else
           (let err = bind_err e;
                retry = (if non_temporary_net_error err then False else True)
            in (True, retry, err)))))))"

subsection \<open>Lifecycle: Start, Wait, Close\<close>

text \<open>
  \<^verbatim>\<open>Close\<close> calls the cancel function when the field \<^verbatim>\<open>stop\<close> is not nil, and returns
  nil. Calling a cancel function marks its scope cancelled; calling it again changes
  nothing.
\<close>

definition Close :: "Client \<Rightarrow> (Client \<times> go_error option) outcome" where
  "Close c =
     (case stop c of
        None \<Rightarrow> Returned (c, None)
      | Some b \<Rightarrow> Returned (c\<lparr>stop := Some True\<rparr>, None))"

text \<open>
  \<^verbatim>\<open>Start\<close> derives a cancellable scope from the caller's context (\<open>parent_done\<close>: that
  context is already done), stores its cancel function and a new group, launches the
  two tasks and returns nil.
\<close>

definition Start :: "Client \<Rightarrow> bool \<Rightarrow> Client \<times> go_error option" where
  "Start c parent_done = (c\<lparr>stop := Some parent_done, eg := Some ()\<rparr>, None)"

text \<open>
  \<^verbatim>\<open>errgroup.Group.Wait\<close> returns the first non-nil error that a task of the group
  returned; \<open>task_errs\<close> lists what the tasks returned, in the order in which they
  finished.
\<close>

definition errgroup_Wait :: "go_error option list \<Rightarrow> go_error option" where
  "errgroup_Wait task_errs =
     (case filter (\<lambda>r. r \<noteq> None) task_errs of [] \<Rightarrow> None | r # rs \<Rightarrow> r)"

text \<open>
  \<^verbatim>\<open>Wait\<close> calls \<^verbatim>\<open>c.eg.Wait()\<close> with no test of the field: on a nil group the call
  dereferences a nil pointer.
\<close>

definition Wait :: "Client \<Rightarrow> go_error option list \<Rightarrow> go_error option outcome" where
  "Wait c task_errs =
     (case eg c of
        None \<Rightarrow> Panicked
      | Some g \<Rightarrow> Returned (errgroup_Wait task_errs))"

subsection \<open>Backoff\<close>

text \<open>
  The retry delays come from the package \<^verbatim>\<open>github.com/jpillora/backoff\<close>, a dependency
  of the repository. The loop builds \<^verbatim>\<open>Backoff{Max: ...}\<close>, so \<^verbatim>\<open>Min\<close> and \<^verbatim>\<open>Factor\<close> are
  at their zero values, for which the package takes 100 milliseconds and 2, and there
  is no jitter. \<open>ForAttempt\<close> follows the package: a non-positive \<open>Max\<close> means 10
  seconds, the delay is \<open>min * 2 ^ attempt\<close>, kept between \<open>min\<close> and \<open>max\<close>, and it is
  \<open>max\<close> once it would not fit a 64-bit integer.
\<close>

record Backoff =
  Backoff_Max :: duration
  attempt :: nat

definition Backoff_ForAttempt :: "Backoff \<Rightarrow> nat \<Rightarrow> duration" where
  "Backoff_ForAttempt b n =
     (let min = 100 * time_Millisecond;
          max = (if Backoff_Max b \<le> 0 then 10 * time_Second else Backoff_Max b)
      in if min \<ge> max then max
         else
           (let durf = min * 2 ^ n
            in if durf > 2 ^ 63 - 1024 then max
               else if durf < min then min
               else if durf > max then max
               else durf))"

definition Backoff_Duration :: "Backoff \<Rightarrow> duration \<times> Backoff" where
  "Backoff_Duration b = (Backoff_ForAttempt b (attempt b), b\<lparr>attempt := attempt b + 1\<rparr>)"

definition Backoff_Reset :: "Backoff \<Rightarrow> Backoff" where
  "Backoff_Reset b = b\<lparr>attempt := 0\<rparr>"

definition Backoff_Attempt :: "Backoff \<Rightarrow> nat" where
  "Backoff_Attempt b = attempt b"

subsection \<open>The connection loop\<close>

text \<open>
  What the loop does that can be seen from outside: it makes an attempt (with the
  result of \<^verbatim>\<open>connectionOnce\<close>), it waits for a delay, it reports that it was cancelled
  during the wait, it calls \<^verbatim>\<open>Close\<close>. Log lines are not part of the model.
\<close>

datatype event =
  Attempted bool bool "go_error option"
| Retrying duration
| Cancelled
| Closed

text \<open>
  One list element answers one iteration. The result is the client, the events in
  order, and what the function returned: \<open>None\<close> when the answers ran out while the loop
  was still going, \<open>Some (Returned err)\<close> when it returned \<open>err\<close>.
\<close>

fun connectionLoop_from ::
  "Client \<Rightarrow> Backoff \<Rightarrow> attempt_env list \<Rightarrow>
     Client \<times> event list \<times> go_error option outcome option" where
  "connectionLoop_from c b [] = (c, [], None)"
| "connectionLoop_from c b (e # es) =
     (case connectionOnce c e of (connected, retry, err) \<Rightarrow>
        (let b1 = (if connected then Backoff_Reset b else b);
             attempt = int (Backoff_Attempt b1);
             maxAttempt = MaxRetryCount (config c)
         in if \<not> retry \<or> (maxAttempt \<ge> 0 \<and> attempt \<ge> maxAttempt) then
              (case Close c of
                 Returned (c', r) \<Rightarrow>
                   (c', [Attempted connected retry err, Closed], Some (Returned None))
               | Panicked \<Rightarrow>
                   (c, [Attempted connected retry err, Closed], Some Panicked))
            else
              (case Backoff_Duration b1 of (d, b2) \<Rightarrow>
                 if sleep_cancelled e then
                   (c, [Attempted connected retry err, Retrying d, Cancelled],
                    Some (Returned None))
                 else
                   (case connectionLoop_from c b2 es of (c', evs, r) \<Rightarrow>
                      (c', Attempted connected retry err # Retrying d # evs, r)))))"

definition connectionLoop ::
  "Client \<Rightarrow> attempt_env list \<Rightarrow>
     Client \<times> event list \<times> go_error option outcome option" where
  "connectionLoop c es =
     connectionLoop_from c \<lparr>Backoff_Max = MaxRetryInterval (config c), attempt = 0\<rparr> es"

subsection \<open>Parsing URLs\<close>

text \<open>
  \<^verbatim>\<open>url.Parse\<close> belongs to the Go standard library (package \<^verbatim>\<open>net/url\<close>). The
  definitions below follow its functions \<^verbatim>\<open>getScheme\<close>, \<^verbatim>\<open>unescape\<close>, \<^verbatim>\<open>parseHost\<close>,
  \<^verbatim>\<open>parseAuthority\<close>, \<^verbatim>\<open>parse\<close> and \<^verbatim>\<open>Parse\<close>. The printing hints \<^verbatim>\<open>RawPath\<close>,
  \<^verbatim>\<open>RawFragment\<close>, \<^verbatim>\<open>ForceQuery\<close> and \<^verbatim>\<open>OmitHost\<close> are left out. The host is
  parsed as in the Go releases this client was written for: a host in square brackets
  needs its closing bracket and a valid port after it, and its content is not checked
  to be an IPv6 address, which later releases of the library do and so refuse some
  bracketed hosts that are accepted here.
\<close>

definition empty_URL :: URL where
  "empty_URL = \<lparr>Scheme = [], Opaque = [], User = None, Host = [], Path = [],
                 RawQuery = [], Fragment = []\<rparr>"

definition stringContainsCTLByte :: "string \<Rightarrow> bool" where
  "stringContainsCTLByte s = (\<exists>c \<in> set s. byte c < 32 \<or> byte c = 127)"

text \<open>\<open>seen\<close> is the text before the current position.\<close>

fun getScheme_from :: "string \<Rightarrow> string \<Rightarrow> string \<Rightarrow> go_error + string \<times> string" where
  "getScheme_from rawURL seen [] = Inr ([], rawURL)"
| "getScheme_from rawURL seen (c # cs) =
     (if is_letter c then getScheme_from rawURL (seen @ [c]) cs
      else if is_digit c \<or> c = CHR ''+'' \<or> c = CHR ''-'' \<or> c = CHR ''.'' then
        (if seen = [] then Inr ([], rawURL)
         else getScheme_from rawURL (seen @ [c]) cs)
      else if c = CHR '':'' then
        (if seen = [] then Inl (errors_New ''missing protocol scheme'')
         else Inr (seen, cs))
      else Inr ([], rawURL))"

definition getScheme :: "string \<Rightarrow> go_error + string \<times> string" where
  "getScheme rawURL = getScheme_from rawURL [] rawURL"

datatype encoding = encodePath | encodeHost | encodeZone | encodeUserPassword | encodeFragment

definition ishex :: "char \<Rightarrow> bool" where
  "ishex c = (is_digit c \<or> (97 \<le> byte c \<and> byte c \<le> 102) \<or> (65 \<le> byte c \<and> byte c \<le> 70))"

definition unhex :: "char \<Rightarrow> nat" where
  "unhex c =
     (if is_digit c then byte c - 48
      else if 97 \<le> byte c \<and> byte c \<le> 102 then byte c - 97 + 10
      else if 65 \<le> byte c \<and> byte c \<le> 70 then byte c - 65 + 10
      else 0)"

text \<open>\<^verbatim>\<open>shouldEscape(c, encodeHost)\<close>.\<close>

definition shouldEscape_host :: "char \<Rightarrow> bool" where
  "shouldEscape_host c =
     (\<not> (is_letter c \<or> is_digit c \<or> c \<in> set ''!$&'()*+,;=:[]<>'' \<or> c = CHR 0x22
         \<or> c \<in> set ''-_.~''))"

definition EscapeError :: "string \<Rightarrow> go_error" where
  "EscapeError s = errors_New (''invalid URL escape '' @ quote s)"

definition InvalidHostError :: "string \<Rightarrow> go_error" where
  "InvalidHostError s = errors_New (''invalid character '' @ quote s @ '' in host name'')"

fun unescape :: "string \<Rightarrow> encoding \<Rightarrow> go_error + string" where
  "unescape [] mode = Inr []"
| "unescape (c # cs) mode =
     (if c = CHR ''%'' then
        (case cs of
           h1 # h2 # rest \<Rightarrow>
             if \<not> ishex h1 \<or> \<not> ishex h2 then Inl (EscapeError [c, h1, h2])
             else if mode = encodeHost \<and> unhex h1 < 8 \<and> [c, h1, h2] \<noteq> ''%25'' then
               Inl (EscapeError [c, h1, h2])
             else if mode = encodeZone \<and> [c, h1, h2] \<noteq> ''%25''
                     \<and> unhex h1 * 16 + unhex h2 \<noteq> 32
                     \<and> shouldEscape_host (char_of (unhex h1 * 16 + unhex h2)) then
               Inl (EscapeError [c, h1, h2])
             else
               (case unescape rest mode of
                  Inl err \<Rightarrow> Inl err
                | Inr t \<Rightarrow> Inr (char_of (unhex h1 * 16 + unhex h2) # t))
         | _ \<Rightarrow> Inl (EscapeError (c # cs)))
      else if (mode = encodeHost \<or> mode = encodeZone) \<and> byte c < 128 \<and> shouldEscape_host c then
        Inl (InvalidHostError [c])
      else
        (case unescape cs mode of
           Inl err \<Rightarrow> Inl err
         | Inr t \<Rightarrow> Inr (c # t)))"

definition validOptionalPort :: "string \<Rightarrow> bool" where
  "validOptionalPort port =
     (case port of
        [] \<Rightarrow> True
      | c # cs \<Rightarrow> c = CHR '':'' \<and> (\<forall>b \<in> set cs. is_digit b))"

definition parseHost :: "string \<Rightarrow> go_error + string" where
  "parseHost host =
     (if strings_HasPrefix host ''['' then
        (case strings_LastIndex host CHR '']'' of
           None \<Rightarrow> Inl (errors_New ''missing ']' in host'')
         | Some i \<Rightarrow>
             if \<not> validOptionalPort (drop (i + 1) host) then
               Inl (errors_New (''invalid port '' @ quote (drop (i + 1) host) @ '' after host''))
             else
               (case strings_Index (take i host) ''%25'' of
                  Some zone \<Rightarrow>
                    (case unescape (take zone host) encodeHost of
                       Inl err \<Rightarrow> Inl err
                     | Inr host1 \<Rightarrow>
                    (case unescape (drop zone (take i host)) encodeZone of
                       Inl err \<Rightarrow> Inl err
                     | Inr host2 \<Rightarrow>
                    (case unescape (drop i host) encodeHost of
                       Inl err \<Rightarrow> Inl err
                     | Inr host3 \<Rightarrow> Inr (host1 @ host2 @ host3))))
                | None \<Rightarrow> unescape host encodeHost))
      else
        (case strings_LastIndex host CHR '':'' of
           Some i \<Rightarrow>
             if \<not> validOptionalPort (drop i host) then
               Inl (errors_New (''invalid port '' @ quote (drop i host) @ '' after host''))
             else unescape host encodeHost
         | None \<Rightarrow> unescape host encodeHost))"

definition validUserinfo :: "string \<Rightarrow> bool" where
  "validUserinfo s =
     (\<forall>r \<in> set s. is_letter r \<or> is_digit r \<or> r \<in> set ''-._:~!$&'()*+,;=%@'')"

definition parseAuthority ::
  "string \<Rightarrow> go_error + (string \<times> string option) option \<times> string" where
  "parseAuthority authority =
     (case strings_LastIndex authority CHR ''@'' of
        None \<Rightarrow>
          (case parseHost authority of
             Inl err \<Rightarrow> Inl err
           | Inr host \<Rightarrow> Inr (None, host))
      | Some i \<Rightarrow>
          (case parseHost (drop (i + 1) authority) of
             Inl err \<Rightarrow> Inl err
           | Inr host \<Rightarrow>
               (let userinfo = take i authority
                in if \<not> validUserinfo userinfo then
                     Inl (errors_New ''net/url: invalid userinfo'')
                   else if CHR '':'' \<notin> set userinfo then
                     (case unescape userinfo encodeUserPassword of
                        Inl err \<Rightarrow> Inl err
                      | Inr name \<Rightarrow> Inr (Some (name, None), host))
                   else
                     (case strings_Cut userinfo CHR '':'' of (username, password) \<Rightarrow>
                        (case unescape username encodeUserPassword of
                           Inl err \<Rightarrow> Inl err
                         | Inr name \<Rightarrow>
                        (case unescape password encodeUserPassword of
                           Inl err \<Rightarrow> Inl err
                         | Inr pw \<Rightarrow> Inr (Some (name, Some pw), host)))))))"

definition setPath :: "URL \<Rightarrow> string \<Rightarrow> go_error + URL" where
  "setPath u p =
     (case unescape p encodePath of
        Inl err \<Rightarrow> Inl err
      | Inr path \<Rightarrow> Inr (u\<lparr>Path := path\<rparr>))"

text \<open>\<^verbatim>\<open>parse(rawURL, false)\<close>.\<close>

definition parse :: "string \<Rightarrow> go_error + URL" where
  "parse rawURL =
     (if stringContainsCTLByte rawURL then
        Inl (errors_New ''net/url: invalid control character in URL'')
      else if rawURL = ''*'' then Inr (empty_URL\<lparr>Path := ''*''\<rparr>)
      else
        (case getScheme rawURL of
           Inl err \<Rightarrow> Inl err
         | Inr (scheme, rest0) \<Rightarrow>
             (let url = empty_URL\<lparr>Scheme := map to_lower scheme\<rparr>;
                  (rest, query) =
                     (if rest0 \<noteq> [] \<and> last rest0 = CHR ''?'' \<and> count_list rest0 CHR ''?'' = 1
                      then (butlast rest0, [])
                      else strings_Cut rest0 CHR ''?'');
                  url = url\<lparr>RawQuery := query\<rparr>
              in if \<not> strings_HasPrefix rest ''/'' \<and> Scheme url \<noteq> [] then
                   Inr (url\<lparr>Opaque := rest\<rparr>)
                 else if \<not> strings_HasPrefix rest ''/''
                         \<and> CHR '':'' \<in> set (fst (strings_Cut rest CHR ''/'')) then
                   Inl (errors_New ''first path segment in URL cannot contain colon'')
                 else if (Scheme url \<noteq> [] \<or> \<not> strings_HasPrefix rest ''///'')
                         \<and> strings_HasPrefix rest ''//'' then
                   (let authority = takeWhile (\<lambda>c. c \<noteq> CHR ''/'') (drop 2 rest);
                        rest' = dropWhile (\<lambda>c. c \<noteq> CHR ''/'') (drop 2 rest)
                    in case parseAuthority authority of
                         Inl err \<Rightarrow> Inl err
                       | Inr (user, host) \<Rightarrow> setPath (url\<lparr>User := user, Host := host\<rparr>) rest')
                 else setPath url rest)))"

text \<open>
  \<^verbatim>\<open>url.Parse\<close> cuts the fragment off, parses the rest and sets the fragment. Its
  errors are of type \<^verbatim>\<open>*url.Error\<close>, which has a method \<^verbatim>\<open>Temporary\<close>; it answers false
  for the errors of parsing.
\<close>

definition url_Error :: "string \<Rightarrow> go_error \<Rightarrow> go_error" where
  "url_Error u err =
     \<lparr>Error = ''parse '' @ quote u @ '': '' @ Error err, net_Temporary = Some False\<rparr>"

definition url_Parse :: "string \<Rightarrow> go_error + URL" where
  "url_Parse rawURL =
     (case strings_Cut rawURL CHR ''#'' of (u, frag) \<Rightarrow>
        (case parse u of
           Inl err \<Rightarrow> Inl (url_Error u err)
         | Inr url \<Rightarrow>
             if frag = [] then Inr url
             else
               (case unescape frag encodeFragment of
                  Inl err \<Rightarrow> Inl (url_Error rawURL err)
                | Inr f \<Rightarrow> Inr (url\<lparr>Fragment := f\<rparr>))))"

subsection \<open>Construction\<close>

text \<open>
  What \<^verbatim>\<open>NewClient\<close> takes from other packages of the repository, whose sources are not
  part of this development: the decoder of a remote specification, the splitting of
  the credentials, and the two version strings.
\<close>

record externals =
  DecodeRemote :: "string \<Rightarrow> go_error + Remote"
  ParseAuth :: "string \<Rightarrow> string \<times> string"
  BuildVersion :: string
  ProtocolVersion :: string

text \<open>The regular expression \<^verbatim>\<open>:\d+$\<close>: a colon and one or more digits end the text.\<close>

definition has_port :: "string \<Rightarrow> bool" where
  "has_port host =
     (let digits = takeWhile is_digit (rev host);
          front = dropWhile is_digit (rev host)
      in digits \<noteq> [] \<and> front \<noteq> [] \<and> hd front = CHR '':'')"

text \<open>The block \<^verbatim>\<open>//apply default port\<close> of \<^verbatim>\<open>NewClient\<close>.\<close>

definition default_port :: "URL \<Rightarrow> URL" where
  "default_port u =
     (if \<not> has_port (Host u) then
        (if Scheme u = ''https'' \<or> Scheme u = ''wss''
         then u\<lparr>Host := Host u @ '':443''\<rparr>
         else u\<lparr>Host := Host u @ '':80''\<rparr>)
      else u)"

text \<open>
  The loop over \<^verbatim>\<open>c.Remotes\<close>. The state is \<^verbatim>\<open>hasReverse\<close>, \<^verbatim>\<open>hasSocks\<close>, \<^verbatim>\<open>hasStdio\<close>
  and the remotes appended so far.
\<close>

fun decode_remotes ::
  "(string \<Rightarrow> go_error + Remote) \<Rightarrow> string list \<Rightarrow> bool \<times> bool \<times> bool \<times> Remote list \<Rightarrow>
     go_error + bool \<times> bool \<times> bool \<times> Remote list" where
  "decode_remotes dec [] st = Inr st"
| "decode_remotes dec (s # ss) (hasReverse, hasSocks, hasStdio, rs) =
     (case dec s of
        Inl err \<Rightarrow>
          Inl (errors_New (''Failed to decode remote '' @ [CHR 0x27] @ s @ [CHR 0x27] @ '': ''
                 @ Error err))
      | Inr r \<Rightarrow>
          if Stdio r \<and> hasStdio then Inl (errors_New ''Only one stdio is allowed'')
          else decode_remotes dec ss
                 (hasReverse \<or> Reverse r, hasSocks \<or> Socks r, hasStdio \<or> Stdio r, rs @ [r]))"

text \<open>
  \<^verbatim>\<open>NewClient\<close> receives a pointer to the configuration and assigns to its fields
  \<^verbatim>\<open>Server\<close> and \<^verbatim>\<open>MaxRetryInterval\<close>. The first component of the result is the caller's
  configuration as the call leaves it, the second the returned error or client.
\<close>

definition NewClient :: "externals \<Rightarrow> Config \<Rightarrow> Config \<times> (go_error + Client)" where
  "NewClient ext c0 =
     (let c1 = (if \<not> strings_HasPrefix (Server c0) ''http''
                then c0\<lparr>Server := ''http://'' @ Server c0\<rparr> else c0);
          c = (if MaxRetryInterval c1 < time_Second
               then c1\<lparr>MaxRetryInterval := 5 * time_Minute\<rparr> else c1)
      in case url_Parse (Server c) of
           Inl err \<Rightarrow> (c, Inl err)
         | Inr u0 \<Rightarrow>
        (let u1 = default_port u0;
             u = u1\<lparr>Scheme := strings_Replace1 (Scheme u1) ''http'' ''ws''\<rparr>
         in case decode_remotes (DecodeRemote ext) (Remotes c) (False, False, False, []) of
              Inl err \<Rightarrow> (c, Inl err)
            | Inr (hasReverse, hasSocks, hasStdio, rs) \<Rightarrow>
           (case (if Proxy c \<noteq> [] then
                    (case url_Parse (Proxy c) of
                       Inl err \<Rightarrow>
                         Inl (errors_New (''Invalid proxy URL ('' @ Error err @ '')''))
                     | Inr p \<Rightarrow> Inr (Some p))
                  else Inr None) of
              Inl err \<Rightarrow> (c, Inl err)
            | Inr purl \<Rightarrow>
               (case ParseAuth ext (Auth c) of (user, pass) \<Rightarrow>
                  (c, Inr \<lparr>config = c,
                           computed = \<lparr>Version = BuildVersion ext, computed_Remotes = rs\<rparr>,
                           sshConfig = \<lparr>ssh_User = user, ssh_Password = pass,
                                        ClientVersion = ''SSH-'' @ ProtocolVersion ext @ ''-client'',
                                        Timeout = 30 * time_Second\<rparr>,
                           proxyURL = purl,
                           server = u,
                           stop = None,
                           eg = None,
                           tunnel = \<lparr>Inbound = True, Outbound = hasReverse,
                                     tunnel_Socks = hasReverse \<and> hasSocks\<rparr>\<rparr>)))))"

subsection \<open>Notions used in the statements\<close>

text \<open>
  An attempt gets as far as dialling: the context is not done and the proxy, if any,
  was set up without error.
\<close>

definition dial_reached :: "Client \<Rightarrow> attempt_env \<Rightarrow> bool" where
  "dial_reached c e =
     (\<not> ctx_done e \<and>
      (case proxyURL c of
         None \<Rightarrow> True
       | Some p \<Rightarrow> (case setProxy p (socks5_err e) of Inl err \<Rightarrow> False | Inr d \<Rightarrow> True)))"

text \<open>\<open>n\<close> calls of \<^verbatim>\<open>Close\<close> in a row, with what each returned.\<close>

fun Close_times :: "nat \<Rightarrow> Client \<Rightarrow> (Client \<times> go_error option list) outcome" where
  "Close_times 0 c = Returned (c, [])"
| "Close_times (Suc n) c =
     (case Close c of
        Panicked \<Rightarrow> Panicked
      | Returned (c', r) \<Rightarrow>
          (case Close_times n c' of
             Panicked \<Rightarrow> Panicked
           | Returned (c'', rs) \<Rightarrow> Returned (c'', r # rs)))"

text \<open>The delays that the loop computed right after an attempt that was connected.\<close>

fun delays_after_connected :: "event list \<Rightarrow> duration list" where
  "delays_after_connected (Attempted connected retry err # Retrying d # evs) =
     (if connected then d # delays_after_connected evs else delays_after_connected evs)"
| "delays_after_connected (ev # evs) = delays_after_connected evs"
| "delays_after_connected [] = []"

text \<open>The delay of the first attempt: what a new backoff state gives.\<close>

definition first_delay :: "Client \<Rightarrow> duration" where
  "first_delay c =
     fst (Backoff_Duration \<lparr>Backoff_Max = MaxRetryInterval (config c), attempt = 0\<rparr>)"


text \<open>A specification that the decoder accepts and flags as stdio.\<close>

definition stdio_flagged :: "(string \<Rightarrow> go_error + Remote) \<Rightarrow> string \<Rightarrow> bool" where
  "stdio_flagged dec s = (case dec s of Inl err \<Rightarrow> False | Inr r \<Rightarrow> Stdio r)"

definition decode_fails :: "(string \<Rightarrow> go_error + Remote) \<Rightarrow> string \<Rightarrow> bool" where
  "decode_fails dec s = (case dec s of Inl err \<Rightarrow> True | Inr r \<Rightarrow> False)"

definition construction_fails :: "Config \<times> (go_error + Client) \<Rightarrow> bool" where
  "construction_fails res = (case snd res of Inl err \<Rightarrow> True | Inr c \<Rightarrow> False)"

subsection \<open>Example values\<close>

text \<open>
  A small decoder in the shape of \<^verbatim>\<open>settings.DecodeRemote\<close>: a specification of five or
  more colon-separated parts is refused, \<^verbatim>\<open>stdio:\<close> in front flags stdio, \<^verbatim>\<open>R:\<close> in
  front flags reverse, and \<^verbatim>\<open>socks\<close> flags socks.
\<close>

definition example_DecodeRemote :: "string \<Rightarrow> go_error + Remote" where
  "example_DecodeRemote s =
     (if s = [] \<or> count_list s CHR '':'' \<ge> 4 then Inl (errors_New ''Invalid remote'')
      else Inr \<lparr>Socks = strings_Contains s ''socks'',
                Reverse = strings_HasPrefix s ''R:'',
                Stdio = strings_HasPrefix s ''stdio:'',
                spec = s\<rparr>)"

definition example_externals :: externals where
  "example_externals =
     \<lparr>DecodeRemote = example_DecodeRemote,
      ParseAuth = (\<lambda>auth. strings_Cut auth CHR '':''),
      BuildVersion = ''0.0.0-src'',
      ProtocolVersion = ''chisel-v3''\<rparr>"

definition example_Config :: Config where
  "example_Config =
     \<lparr>Fingerprint = ''ab:cd'', Auth = ''user:pass'', KeepAlive = 0, MaxRetryCount = 0,
      MaxRetryInterval = 0, Server = ''example.com'', Proxy = [], Remotes = [''3000:socks''],
      Headers = [], DialContext = None\<rparr>"

definition example_Client :: Client where
  "example_Client =
     \<lparr>config = example_Config\<lparr>Server := ''http://example.com'',
                                MaxRetryInterval := 300000000000\<rparr>,
      computed = \<lparr>Version = ''0.0.0-src'',
                  computed_Remotes = [\<lparr>Socks = True, Reverse = False, Stdio = False,
                                       spec = ''3000:socks''\<rparr>]\<rparr>,
      sshConfig = \<lparr>ssh_User = ''user'', ssh_Password = ''pass'',
                   ClientVersion = ''SSH-chisel-v3-client'', Timeout = 30000000000\<rparr>,
      proxyURL = None,
      server = \<lparr>Scheme = ''ws'', Opaque = [], User = None, Host = ''example.com:80'',
                Path = [], RawQuery = [], Fragment = []\<rparr>,
      stop = None,
      eg = None,
      tunnel = \<lparr>Inbound = True, Outbound = False, tunnel_Socks = False\<rparr>\<rparr>"

definition plain_error :: "string \<Rightarrow> go_error" where
  "plain_error s = \<lparr>Error = s, net_Temporary = None\<rparr>"

definition net_error :: "string \<Rightarrow> bool \<Rightarrow> go_error" where
  "net_error s temporary = \<lparr>Error = s, net_Temporary = Some temporary\<rparr>"

text \<open>An attempt in which everything succeeds and the session ends without error.\<close>

definition env_ok :: attempt_env where
  "env_ok =
     \<lparr>ctx_done = False, socks5_err = None, dial_err = None, handshake_err = None,
      send_err = None, configerr = [], bind_err = None, sleep_cancelled = False\<rparr>"

section \<open>Properties\<close>

subsection \<open>Auxiliary facts\<close>

lemma strings_HasPrefix_iff: "strings_HasPrefix s p \<longleftrightarrow> prefix p s"
  unfolding strings_HasPrefix_def prefix_def
  by (metis append_eq_conv_conj append_take_drop_id)

lemma strings_Contains_iff: "strings_Contains s sub \<longleftrightarrow> sublist sub s"
  by (induction s) (simp_all add: strings_HasPrefix_iff sublist_Cons_right)

lemma connectionOnce_after_dial:
  assumes "dial_reached c e" and "dial_err e = None"
  shows "connectionOnce c e =
     (case handshake_err e of
        Some err \<Rightarrow>
          (False,
           \<not> strings_Contains (Error err) ''unable to authenticate''
             \<and> \<not> non_temporary_net_error (Some err),
           Some err)
      | None \<Rightarrow>
          (case send_err e of
             Some err \<Rightarrow> (False, False, Some err)
           | None \<Rightarrow>
               if configerr e \<noteq> [] then (False, False, Some (errors_New (configerr e)))
               else (True, \<not> non_temporary_net_error (bind_err e), bind_err e)))"
  using assms unfolding dial_reached_def connectionOnce_def
  by (auto simp: Let_def split: option.splits sum.splits)

lemma connectionOnce_dial_fails:
  assumes "dial_reached c e" and "dial_err e = Some err"
  shows "connectionOnce c e = (False, True, Some err)"
  using assms unfolding dial_reached_def connectionOnce_def
  by (auto split: option.splits sum.splits)

lemma Close_returns: "\<exists>c'. Close c = Returned (c', None)"
  by (cases "stop c") (simp_all add: Close_def)

lemma Close_times_returns: "\<exists>c'. Close_times n c = Returned (c', replicate n None)"
proof (induction n arbitrary: c)
  case 0
  show ?case by simp
next
  case (Suc n)
  obtain c1 where c1: "Close c = Returned (c1, None)"
    using Close_returns by blast
  from Suc obtain c2 where "Close_times n c1 = Returned (c2, replicate n None)"
    by blast
  with c1 show ?case by simp
qed

lemma NewClient_fresh:
  assumes "NewClient ext cfg = (cfg', Inr c)"
  shows "stop c = None \<and> eg c = None"
  using assms unfolding NewClient_def Let_def
  by (auto split: sum.splits if_splits prod.splits)

lemma ForAttempt_Max:
  "Backoff_Max b' = Backoff_Max b \<Longrightarrow> Backoff_ForAttempt b' n = Backoff_ForAttempt b n"
  by (simp add: Backoff_ForAttempt_def)

lemma loop_step:
  assumes "connectionOnce c e = (connected, retry, err)"
    and "b1 = (if connected then Backoff_Reset b else b)"
    and "Backoff_Duration b1 = (d, b2)"
    and "connectionLoop_from c b2 es = (c', evs, r)"
  shows "connectionLoop_from c b (e # es) =
     (if \<not> retry \<or> (MaxRetryCount (config c) \<ge> 0 \<and>
                     int (Backoff_Attempt b1) \<ge> MaxRetryCount (config c)) then
        (case Close c of
           Returned (c', r) \<Rightarrow>
             (c', [Attempted connected retry err, Closed], Some (Returned None))
         | Panicked \<Rightarrow> (c, [Attempted connected retry err, Closed], Some Panicked))
      else if sleep_cancelled e then
        (c, [Attempted connected retry err, Retrying d, Cancelled], Some (Returned None))
      else (c', Attempted connected retry err # Retrying d # evs, r))"
  unfolding connectionLoop_from.simps assms(1) Let_def prod.case assms(2) [symmetric]
    assms(3) assms(4)
  by (rule refl)

lemma loop_reset:
  assumes "fst (connectionOnce c e)"
  shows "connectionLoop_from c b (e # es) = connectionLoop_from c (Backoff_Reset b) (e # es)"
  using assms by (cases "connectionOnce c e") (simp add: Backoff_Reset_def)

lemma loop_delays:
  "\<forall>x \<in> set (delays_after_connected (fst (snd (connectionLoop_from c b es)))).
      x = Backoff_ForAttempt b 0"
proof (induction es arbitrary: b)
  case Nil
  show ?case by simp
next
  case (Cons e es)
  obtain connected retry err where once: "connectionOnce c e = (connected, retry, err)"
    by (cases "connectionOnce c e") auto
  define b1 where "b1 = (if connected then Backoff_Reset b else b)"
  obtain d b2 where dur: "Backoff_Duration b1 = (d, b2)"
    by (cases "Backoff_Duration b1") auto
  obtain c' evs r where rec: "connectionLoop_from c b2 es = (c', evs, r)"
    by (cases "connectionLoop_from c b2 es") auto
  obtain c1 where cl: "Close c = Returned (c1, None)"
    using Close_returns by blast
  have m2: "Backoff_Max b2 = Backoff_Max b"
    using dur by (auto simp: b1_def Backoff_Duration_def Backoff_Reset_def)
  have d0: "connected \<Longrightarrow> d = Backoff_ForAttempt b 0"
    using dur
    by (auto simp: b1_def Backoff_Duration_def Backoff_Reset_def Backoff_ForAttempt_def)
  have rest: "\<forall>x \<in> set (delays_after_connected evs). x = Backoff_ForAttempt b 0"
    using Cons.IH [of b2] ForAttempt_Max [OF m2] by (simp add: rec)
  note step = loop_step [OF once b1_def dur rec]
  show ?case
    unfolding step using d0 rest by (simp add: cl)
qed

subsection \<open>Handshake and negotiation\<close>

text \<open>
  C1. When the secure-shell handshake of an attempt fails with the error \<open>err\<close>, the
  attempt returns not connected, carries \<open>err\<close>, and is retriable exactly when \<open>err\<close>
  is neither an authentication rejection (its text contains
  \<^verbatim>\<open>unable to authenticate\<close>) nor a network error whose \<^verbatim>\<open>Temporary()\<close> is false.
\<close>

theorem connectionOnce_handshake_failure:
  assumes "dial_reached c e" and "dial_err e = None" and "handshake_err e = Some err"
  shows "connectionOnce c e =
           (False,
            (if sublist ''unable to authenticate'' (Error err) then False
             else if net_Temporary err = Some False then False
             else True),
            Some err)"
  using assms
  by (auto simp: connectionOnce_after_dial strings_Contains_iff non_temporary_net_error_def
           split: option.splits)

theorem connectionOnce_handshake_failure_witness:
  "connectionOnce example_Client
     (env_ok\<lparr>handshake_err := Some (plain_error ''ssh: unable to authenticate'')\<rparr>) =
     (False, False, Some (plain_error ''ssh: unable to authenticate'')) \<and>
   connectionOnce example_Client
     (env_ok\<lparr>handshake_err := Some (net_error ''connection refused'' False)\<rparr>) =
     (False, False, Some (net_error ''connection refused'' False)) \<and>
   connectionOnce example_Client
     (env_ok\<lparr>handshake_err := Some (net_error ''i/o timeout'' True)\<rparr>) =
     (False, True, Some (net_error ''i/o timeout'' True)) \<and>
   connectionOnce example_Client
     (env_ok\<lparr>handshake_err := Some (plain_error ''EOF'')\<rparr>) =
     (False, True, Some (plain_error ''EOF''))"
proof -
  have r: "dial_reached example_Client (env_ok\<lparr>handshake_err := h\<rparr>)" for h
    by (simp add: dial_reached_def example_Client_def env_ok_def)
  have d: "dial_err (env_ok\<lparr>handshake_err := h\<rparr>) = None" for h
    by (simp add: env_ok_def)
  show ?thesis
    using connectionOnce_handshake_failure [OF r d, of "Some (plain_error ''ssh: unable to authenticate'')" "plain_error ''ssh: unable to authenticate''"]
      connectionOnce_handshake_failure [OF r d, of "Some (net_error ''connection refused'' False)" "net_error ''connection refused'' False"]
      connectionOnce_handshake_failure [OF r d, of "Some (net_error ''i/o timeout'' True)" "net_error ''i/o timeout'' True"]
      connectionOnce_handshake_failure [OF r d, of "Some (plain_error ''EOF'')" "plain_error ''EOF''"]
    by (simp add: plain_error_def net_error_def strings_Contains_iff [symmetric]
          strings_HasPrefix_def)
qed

text \<open>
  C7. After a successful handshake: when sending the \<^verbatim>\<open>config\<close> request fails with
  \<open>err\<close>, the attempt returns not connected, not retriable, with \<open>err\<close>; when the request
  is sent and the reply payload is not empty, the attempt returns not connected, not
  retriable, with a plain error whose text is the payload.
\<close>

theorem connectionOnce_negotiation_failure:
  assumes "dial_reached c e" and "dial_err e = None" and "handshake_err e = None"
  shows "(send_err e = Some err \<longrightarrow> connectionOnce c e = (False, False, Some err)) \<and>
         (send_err e = None \<and> configerr e \<noteq> [] \<longrightarrow>
            connectionOnce c e =
              (False, False, Some \<lparr>Error = configerr e, net_Temporary = None\<rparr>))"
  using assms by (auto simp: connectionOnce_after_dial errors_New_def)

theorem connectionOnce_negotiation_failure_witness:
  "connectionOnce example_Client (env_ok\<lparr>send_err := Some (plain_error ''EOF'')\<rparr>) =
     (False, False, Some (plain_error ''EOF'')) \<and>
   connectionOnce example_Client (env_ok\<lparr>configerr := ''unsupported remote''\<rparr>) =
     (False, False, Some (plain_error ''unsupported remote''))"
proof -
  have a: "dial_reached example_Client e" if "\<not> ctx_done e" for e
    using that by (simp add: dial_reached_def example_Client_def)
  show ?thesis
    using connectionOnce_negotiation_failure
            [of example_Client "env_ok\<lparr>send_err := Some (plain_error ''EOF'')\<rparr>"
                "plain_error ''EOF''"]
      connectionOnce_negotiation_failure
            [of example_Client "env_ok\<lparr>configerr := ''unsupported remote''\<rparr>"]
    by (simp add: a env_ok_def plain_error_def)
qed

subsection \<open>Host key verification\<close>

text \<open>
  C6. For every presented key, with \<open>got\<close> its computed fingerprint: when the
  configured fingerprint is not empty and \<open>got\<close> does not start with it, verification
  fails with an error whose text contains \<open>got\<close>; otherwise verification succeeds.
\<close>

theorem verifyServer_fingerprint_prefix:
  "(expect \<noteq> [] \<and> \<not> prefix expect got \<longrightarrow>
      (\<exists>err. verifyServer expect got = Some err \<and> sublist got (Error err))) \<and>
   (expect = [] \<or> prefix expect got \<longrightarrow> verifyServer expect got = None)"
proof -
  have "sublist got (Error (errors_New (''Invalid fingerprint ('' @ got @ '')'')))"
    unfolding errors_New_def go_error.simps by (rule sublist_appendI)
  then show ?thesis
    by (auto simp: verifyServer_def strings_HasPrefix_iff)
qed

theorem verifyServer_fingerprint_prefix_witness:
  "verifyServer ''ab:cd'' ''ab:cd:ef:00'' = None \<and>
   verifyServer [] ''zz:zz'' = None \<and>
   (\<exists>err. verifyServer ''ab:cd'' ''zz:zz'' = Some err \<and> sublist ''zz:zz'' (Error err))"
  using verifyServer_fingerprint_prefix [of "''ab:cd''" "''ab:cd:ef:00''"]
    verifyServer_fingerprint_prefix [of "[]" "''zz:zz''"]
    verifyServer_fingerprint_prefix [of "''ab:cd''" "''zz:zz''"]
  by simp

subsection \<open>Lifecycle\<close>

lemma url_Parse_example:
  "url_Parse ''http://example.com'' =
     Inr \<lparr>Scheme = ''http'', Opaque = [], User = None, Host = ''example.com'', Path = [],
          RawQuery = [], Fragment = []\<rparr>"
  by code_simp

lemma NewClient_example:
  "NewClient example_externals example_Config = (config example_Client, Inr example_Client)"
  by code_simp

text \<open>
  C8. \<^verbatim>\<open>Close\<close> on a client whose \<^verbatim>\<open>stop\<close> field is nil, as on every client that
  \<^verbatim>\<open>NewClient\<close> returns and \<^verbatim>\<open>Start\<close> has not touched, changes nothing and returns nil;
  and any number of calls of \<^verbatim>\<open>Close\<close> in a row, from any state of the client, all
  return nil and none panics.
\<close>

theorem Close_idempotent:
  "(stop c = None \<longrightarrow> Close c = Returned (c, None)) \<and>
   (NewClient ext cfg = (cfg', Inr c) \<longrightarrow> Close c = Returned (c, None)) \<and>
   (\<exists>c'. Close_times n c = Returned (c', replicate n None))"
  using NewClient_fresh [of ext cfg cfg' c] Close_times_returns [of n c]
  by (auto simp: Close_def)

theorem Close_idempotent_witness:
  "Close example_Client = Returned (example_Client, None) \<and>
   Close_times 2 (fst (Start example_Client False)) =
     Returned (example_Client\<lparr>stop := Some True, eg := Some ()\<rparr>, [None, None])"
proof -
  have "Close_times 2 (fst (Start example_Client False)) =
     Returned (example_Client\<lparr>stop := Some True, eg := Some ()\<rparr>, [None, None])"
    by (simp add: numeral_2_eq_2 Close_def Start_def)
  then show ?thesis
    using Close_idempotent [of example_Client example_externals example_Config
        "config example_Client" 2] NewClient_example
    by simp
qed

text \<open>
  C10. \<^verbatim>\<open>Wait\<close> on a client whose \<^verbatim>\<open>eg\<close> field is nil panics. Every client that
  \<^verbatim>\<open>NewClient\<close> returns is in that state until \<^verbatim>\<open>Start\<close> is called: on it \<^verbatim>\<open>Wait\<close>
  panics while \<^verbatim>\<open>Close\<close>, which tests its field, returns nil. After \<^verbatim>\<open>Start\<close>,
  \<^verbatim>\<open>Wait\<close> returns what the group returns.
\<close>

theorem Wait_before_Start_panics:
  "(eg c = None \<longrightarrow> Wait c task_errs = Panicked) \<and>
   (NewClient ext cfg = (cfg', Inr c) \<longrightarrow>
      Wait c task_errs = Panicked \<and> Close c = Returned (c, None)) \<and>
   Wait (fst (Start c parent_done)) task_errs = Returned (errgroup_Wait task_errs)"
  using NewClient_fresh [of ext cfg cfg' c]
  by (auto simp: Wait_def Close_def Start_def)

theorem Wait_before_Start_panics_witness:
  "Wait example_Client [None, None] = Panicked \<and>
   Close example_Client = Returned (example_Client, None) \<and>
   Wait (fst (Start example_Client False)) [None, None] = Returned None"
  using Wait_before_Start_panics [of example_Client "[None, None]" example_externals
      example_Config "config example_Client" False] NewClient_example
  by (simp add: errgroup_Wait_def)

subsection \<open>The connection loop\<close>

text \<open>
  C2. With a maximum retry count of 0, when the first attempt gets as far as dialling
  and the dial fails with \<open>err\<close>, the loop makes that one attempt, computes no delay,
  calls \<^verbatim>\<open>Close\<close> and returns nil, whatever the following attempts would have met; and a
  task that returned nil adds no error to what the group's \<^verbatim>\<open>Wait\<close> returns.
\<close>

theorem connectionLoop_zero_retries:
  assumes "MaxRetryCount (config c) = 0" and "dial_reached c e" and "dial_err e = Some err"
  shows "\<exists>c'. Close c = Returned (c', None) \<and>
           connectionLoop c (e # es) =
             (c', [Attempted False True (Some err), Closed], Some (Returned None)) \<and>
           errgroup_Wait [None, r] = r \<and> errgroup_Wait [r, None] = r"
proof -
  have once: "connectionOnce c e = (False, True, Some err)"
    using assms(2,3) by (rule connectionOnce_dial_fails)
  obtain c' where c': "Close c = Returned (c', None)"
    using Close_returns by blast
  have "connectionLoop c (e # es) =
          (c', [Attempted False True (Some err), Closed], Some (Returned None))"
    using assms(1) once c' by (simp add: connectionLoop_def Backoff_Attempt_def)
  moreover have "errgroup_Wait [None, r] = r \<and> errgroup_Wait [r, None] = r"
    by (cases r) (simp_all add: errgroup_Wait_def)
  ultimately show ?thesis using c' by blast
qed

theorem connectionLoop_zero_retries_witness:
  "connectionLoop (fst (Start example_Client False))
     [env_ok\<lparr>dial_err := Some (net_error ''connection refused'' True)\<rparr>, env_ok] =
     (example_Client\<lparr>stop := Some True, eg := Some ()\<rparr>,
      [Attempted False True (Some (net_error ''connection refused'' True)), Closed],
      Some (Returned None))"
proof -
  let ?c = "fst (Start example_Client False)"
  let ?e = "env_ok\<lparr>dial_err := Some (net_error ''connection refused'' True)\<rparr>"
  have 1: "MaxRetryCount (config ?c) = 0"
    by (simp add: Start_def example_Client_def example_Config_def)
  have 2: "dial_reached ?c ?e"
    by (simp add: dial_reached_def Start_def example_Client_def env_ok_def)
  have 3: "dial_err ?e = Some (net_error ''connection refused'' True)"
    by simp
  show ?thesis
    using connectionLoop_zero_retries [OF 1 2 3, of "[env_ok]" None]
    by (simp add: Close_def Start_def)
qed

text \<open>
  C3, as the code has it. In every run of the loop, an attempt that returned
  connected resets the backoff before the next delay is computed, however the session
  ended: the loop goes on from that attempt as it would from a backoff state with no
  failures counted, whatever the count was, and the delay computed when a connected
  attempt returns is the delay of the first attempt.
\<close>

theorem connectionLoop_backoff_reset:
  "(fst (connectionOnce c e) \<longrightarrow>
      connectionLoop_from c b (e # es) = connectionLoop_from c (Backoff_Reset b) (e # es)) \<and>
   (\<forall>d \<in> set (delays_after_connected (fst (snd (connectionLoop c run)))). d = first_delay c)"
proof
  show "fst (connectionOnce c e) \<longrightarrow>
      connectionLoop_from c b (e # es) = connectionLoop_from c (Backoff_Reset b) (e # es)"
    using loop_reset [of c e b es] by blast
  show "\<forall>d \<in> set (delays_after_connected (fst (snd (connectionLoop c run)))). d = first_delay c"
    using loop_delays [of c "\<lparr>Backoff_Max = MaxRetryInterval (config c), attempt = 0\<rparr>" run]
    by (simp add: connectionLoop_def first_delay_def Backoff_Duration_def)
qed


theorem connectionLoop_backoff_reset_witness:
  "connectionLoop_from
     (example_Client\<lparr>config := (config example_Client)\<lparr>MaxRetryCount := 5\<rparr>\<rparr>)
     \<lparr>Backoff_Max = 300000000000, attempt = 2\<rparr>
     [env_ok, env_ok\<lparr>dial_err := Some (net_error ''connection refused'' True)\<rparr>] =
   connectionLoop_from
     (example_Client\<lparr>config := (config example_Client)\<lparr>MaxRetryCount := 5\<rparr>\<rparr>)
     \<lparr>Backoff_Max = 300000000000, attempt = 0\<rparr>
     [env_ok, env_ok\<lparr>dial_err := Some (net_error ''connection refused'' True)\<rparr>] \<and>
   delays_after_connected (fst (snd (connectionLoop
     (example_Client\<lparr>config := (config example_Client)\<lparr>MaxRetryCount := 5\<rparr>\<rparr>)
     [env_ok\<lparr>dial_err := Some (net_error ''connection refused'' True)\<rparr>,
      env_ok\<lparr>dial_err := Some (net_error ''connection refused'' True)\<rparr>,
      env_ok,
      env_ok\<lparr>dial_err := Some (net_error ''connection refused'' True)\<rparr>]))) =
     [first_delay
        (example_Client\<lparr>config := (config example_Client)\<lparr>MaxRetryCount := 5\<rparr>\<rparr>)] \<and>
   first_delay (example_Client\<lparr>config := (config example_Client)\<lparr>MaxRetryCount := 5\<rparr>\<rparr>) =
     100 * time_Millisecond"
proof -
  let ?c = "example_Client\<lparr>config := (config example_Client)\<lparr>MaxRetryCount := 5\<rparr>\<rparr>"
  let ?f = "env_ok\<lparr>dial_err := Some (net_error ''connection refused'' True)\<rparr>"
  have ok: "connectionOnce ?c env_ok = (True, True, None)"
    by (simp add: connectionOnce_def example_Client_def env_ok_def
          non_temporary_net_error_def)
  have f: "connectionOnce ?c ?f = (False, True, Some (net_error ''connection refused'' True))"
    by (simp add: connectionOnce_def example_Client_def env_ok_def)
  have m: "MaxRetryCount (config ?c) = 5" "MaxRetryInterval (config ?c) = 300000000000"
    by (simp_all add: example_Client_def)
  have fa: "Backoff_ForAttempt \<lparr>Backoff_Max = 300000000000, attempt = a\<rparr> 0 = 100000000"
       "Backoff_ForAttempt \<lparr>Backoff_Max = 300000000000, attempt = a\<rparr> (Suc 0) = 200000000" for a
    by (simp_all add: Backoff_ForAttempt_def time_Millisecond_def time_Second_def)
  have run: "fst (snd (connectionLoop ?c [?f, ?f, env_ok, ?f])) =
      [Attempted False True (Some (net_error ''connection refused'' True)), Retrying 100000000,
       Attempted False True (Some (net_error ''connection refused'' True)), Retrying 200000000,
       Attempted True True None, Retrying 100000000,
       Attempted False True (Some (net_error ''connection refused'' True)), Retrying 200000000]"
    unfolding connectionLoop_def connectionLoop_from.simps ok f m
    by (simp add: Backoff_Attempt_def Backoff_Reset_def Backoff_Duration_def fa env_ok_def)
  have fd: "first_delay ?c = 100000000"
    by (simp add: first_delay_def example_Client_def Backoff_Duration_def fa)
  show ?thesis
    using connectionLoop_backoff_reset [of ?c env_ok
        "\<lparr>Backoff_Max = 300000000000, attempt = 2\<rparr>" "[?f]" "[?f, ?f, env_ok, ?f]"]
    by (simp add: ok run fd Backoff_Reset_def time_Millisecond_def)
qed

text \<open>
  C3, as stated, fails: computing that delay counts as an attempt of the backoff, so
  the failed attempt that follows a connected one waits for the second delay, 200
  milliseconds, where the first failure of a new loop waits for 100 milliseconds.
\<close>

theorem connectionLoop_backoff_reset_counterexample:
  "fst (snd (connectionLoop
     (example_Client\<lparr>config := (config example_Client)\<lparr>MaxRetryCount := 5\<rparr>\<rparr>)
     [env_ok, env_ok\<lparr>dial_err := Some (net_error ''connection refused'' True)\<rparr>])) =
     [Attempted True True None, Retrying 100000000,
      Attempted False True (Some (net_error ''connection refused'' True)),
      Retrying 200000000] \<and>
   fst (snd (connectionLoop
     (example_Client\<lparr>config := (config example_Client)\<lparr>MaxRetryCount := 5\<rparr>\<rparr>)
     [env_ok\<lparr>dial_err := Some (net_error ''connection refused'' True)\<rparr>])) =
     [Attempted False True (Some (net_error ''connection refused'' True)),
      Retrying 100000000] \<and>
   first_delay (example_Client\<lparr>config := (config example_Client)\<lparr>MaxRetryCount := 5\<rparr>\<rparr>) =
     100000000"
proof -
  let ?c = "example_Client\<lparr>config := (config example_Client)\<lparr>MaxRetryCount := 5\<rparr>\<rparr>"
  let ?f = "env_ok\<lparr>dial_err := Some (net_error ''connection refused'' True)\<rparr>"
  have ok: "connectionOnce ?c env_ok = (True, True, None)"
    by (simp add: connectionOnce_def example_Client_def env_ok_def
          non_temporary_net_error_def)
  have f: "connectionOnce ?c ?f = (False, True, Some (net_error ''connection refused'' True))"
    by (simp add: connectionOnce_def example_Client_def env_ok_def)
  have m: "MaxRetryCount (config ?c) = 5" "MaxRetryInterval (config ?c) = 300000000000"
    by (simp_all add: example_Client_def)
  have fa: "Backoff_ForAttempt \<lparr>Backoff_Max = 300000000000, attempt = a\<rparr> 0 = 100000000"
       "Backoff_ForAttempt \<lparr>Backoff_Max = 300000000000, attempt = a\<rparr> (Suc 0) = 200000000" for a
    by (simp_all add: Backoff_ForAttempt_def time_Millisecond_def time_Second_def)
  have 1: "fst (snd (connectionLoop ?c [env_ok, ?f])) =
      [Attempted True True None, Retrying 100000000,
       Attempted False True (Some (net_error ''connection refused'' True)),
       Retrying 200000000]"
    unfolding connectionLoop_def connectionLoop_from.simps ok f m
    by (simp add: Backoff_Attempt_def Backoff_Reset_def Backoff_Duration_def fa env_ok_def)
  have 2: "fst (snd (connectionLoop ?c [?f])) =
      [Attempted False True (Some (net_error ''connection refused'' True)),
       Retrying 100000000]"
    unfolding connectionLoop_def connectionLoop_from.simps ok f m
    by (simp add: Backoff_Attempt_def Backoff_Reset_def Backoff_Duration_def fa env_ok_def)
  have 3: "first_delay ?c = 100000000"
    by (simp add: first_delay_def example_Client_def Backoff_Duration_def fa)
  from 1 2 3 show ?thesis by blast
qed

subsection \<open>Construction\<close>

lemma NewClient_config:
  "fst (NewClient ext c) =
     c\<lparr>Server := (if strings_HasPrefix (Server c) ''http'' then Server c
                   else ''http://'' @ Server c),
       MaxRetryInterval := (if MaxRetryInterval c < time_Second then 5 * time_Minute
                            else MaxRetryInterval c)\<rparr>"
  unfolding NewClient_def Let_def
  by (simp split: sum.splits prod.splits)

lemma decode_remotes_fails:
  "\<exists>s \<in> set ss. decode_fails dec s \<Longrightarrow> \<exists>err. decode_remotes dec ss st = Inl err"
proof (induction dec ss st rule: decode_remotes.induct)
  case (1 dec st)
  then show ?case by simp
next
  case (2 dec s ss hasReverse hasSocks hasStdio rs)
  show ?case
  proof (cases "dec s")
    case (Inl err)
    then show ?thesis by simp
  next
    case (Inr r)
    with "2.prems" have "\<exists>s \<in> set ss. decode_fails dec s"
      by (auto simp: decode_fails_def)
    with "2.IH" [OF Inr] Inr show ?thesis by auto
  qed
qed

lemma decode_remotes_two_stdio:
  "2 \<le> (if hasStdio then 1 else 0) + length (filter (stdio_flagged dec) ss) \<Longrightarrow>
     \<exists>err. decode_remotes dec ss (hasReverse, hasSocks, hasStdio, rs) = Inl err"
proof (induction ss arbitrary: hasReverse hasSocks hasStdio rs)
  case Nil
  then show ?case by (simp split: if_splits)
next
  case (Cons s ss)
  show ?case
  proof (cases "dec s")
    case (Inl err)
    then show ?thesis by simp
  next
    case (Inr r)
    show ?thesis
    proof (cases "Stdio r \<and> hasStdio")
      case True
      with Inr show ?thesis by simp
    next
      case False
      have sf: "stdio_flagged dec s = Stdio r"
        using Inr by (simp add: stdio_flagged_def)
      have "2 \<le> (if hasStdio \<or> Stdio r then 1 else 0) + length (filter (stdio_flagged dec) ss)"
        using Cons.prems False by (auto simp: sf split: if_splits)
      from Cons.IH [OF this] Inr False show ?thesis by auto
    qed
  qed
qed

lemma decode_remotes_first_failure:
  assumes "\<forall>t \<in> set pre. \<not> decode_fails dec t"
    and "(if hasStdio then 1 else 0) + length (filter (stdio_flagged dec) pre) \<le> 1"
    and "dec s = Inl err"
  shows "decode_remotes dec (pre @ s # post) (hasReverse, hasSocks, hasStdio, rs) =
           Inl (errors_New (''Failed to decode remote '' @ [CHR 0x27] @ s @ [CHR 0x27] @ '': ''
                  @ Error err))"
  using assms(1,2)
proof (induction pre arbitrary: hasReverse hasSocks hasStdio rs)
  case Nil
  show ?case using assms(3) by simp
next
  case (Cons t pre)
  from Cons.prems(1) obtain r where r: "dec t = Inr r"
    by (cases "dec t") (auto simp: decode_fails_def)
  have sf: "stdio_flagged dec t = Stdio r"
    using r by (simp add: stdio_flagged_def)
  have ns: "\<not> (Stdio r \<and> hasStdio)"
    using Cons.prems(2) by (auto simp: sf split: if_splits)
  have a: "\<forall>t \<in> set pre. \<not> decode_fails dec t"
    using Cons.prems(1) by simp
  have b: "(if hasStdio \<or> Stdio r then 1 else 0) + length (filter (stdio_flagged dec) pre) \<le> 1"
    using Cons.prems(2) by (auto simp: sf split: if_splits)
  have "decode_remotes dec ((t # pre) @ s # post) (hasReverse, hasSocks, hasStdio, rs) =
        decode_remotes dec (pre @ s # post)
          (hasReverse \<or> Reverse r, hasSocks \<or> Socks r, hasStdio \<or> Stdio r, rs @ [r])"
    using r ns by auto
  also have "\<dots> = Inl (errors_New (''Failed to decode remote '' @ [CHR 0x27] @ s @ [CHR 0x27]
                  @ '': '' @ Error err))"
    by (rule Cons.IH [OF a b])
  finally show ?case .
qed

lemma NewClient_remotes_error:
  assumes "decode_remotes (DecodeRemote ext) (Remotes c) (False, False, False, []) = Inl err"
  shows "snd (NewClient ext c) = Inl err \<or>
         (\<exists>perr. url_Parse (Server (fst (NewClient ext c))) = Inl perr \<and>
                  snd (NewClient ext c) = Inl perr)"
  using assms unfolding NewClient_def Let_def
  by (simp split: sum.splits)

text \<open>
  C9, as the code has it. \<^verbatim>\<open>NewClient\<close> writes through the pointer it is given: it
  leaves every field of the caller's configuration unchanged except \<^verbatim>\<open>Server\<close>, which
  gets \<^verbatim>\<open>http://\<close> in front when it does not start with \<^verbatim>\<open>http\<close>, and
  \<^verbatim>\<open>MaxRetryInterval\<close>, which becomes 5 minutes when it is below one second. A
  configuration whose server starts with \<^verbatim>\<open>http\<close> and whose interval is at least one
  second is left as it was.
\<close>

theorem NewClient_config_after:
  "fst (NewClient ext c) =
     c\<lparr>Server := (if prefix ''http'' (Server c) then Server c else ''http://'' @ Server c),
       MaxRetryInterval := (if MaxRetryInterval c < time_Second then 5 * time_Minute
                            else MaxRetryInterval c)\<rparr> \<and>
   (prefix ''http'' (Server c) \<and> time_Second \<le> MaxRetryInterval c \<longrightarrow>
      fst (NewClient ext c) = c)"
  by (simp add: NewClient_config strings_HasPrefix_iff)

theorem NewClient_config_after_witness:
  "fst (NewClient example_externals
          (example_Config\<lparr>Server := ''https://example.com'', MaxRetryInterval := time_Second\<rparr>)) =
     example_Config\<lparr>Server := ''https://example.com'', MaxRetryInterval := time_Second\<rparr> \<and>
   fst (NewClient example_externals example_Config) =
     example_Config\<lparr>Server := ''http://example.com'', MaxRetryInterval := 5 * time_Minute\<rparr>"
  using NewClient_config_after [of example_externals
      "example_Config\<lparr>Server := ''https://example.com'', MaxRetryInterval := time_Second\<rparr>"]
    NewClient_config_after [of example_externals example_Config]
  by (simp add: example_Config_def time_Second_def time_Millisecond_def)

text \<open>
  C9, as stated, fails: the configuration with server \<^verbatim>\<open>example.com\<close> and a retry
  interval of 0 is not what \<^verbatim>\<open>NewClient\<close> leaves behind.
\<close>

theorem NewClient_config_unchanged_counterexample:
  "fst (NewClient example_externals example_Config) \<noteq> example_Config \<and>
   Server example_Config = ''example.com'' \<and>
   Server (fst (NewClient example_externals example_Config)) = ''http://example.com'' \<and>
   MaxRetryInterval example_Config = 0 \<and>
   MaxRetryInterval (fst (NewClient example_externals example_Config)) = 300000000000"
proof -
  have s: "Server (fst (NewClient example_externals example_Config)) = ''http://example.com''"
    and m: "MaxRetryInterval (fst (NewClient example_externals example_Config)) = 300000000000"
    by (simp_all add: NewClient_config example_Config_def strings_HasPrefix_def
          time_Second_def time_Minute_def time_Millisecond_def)
  have "Server example_Config = ''example.com''" and "MaxRetryInterval example_Config = 0"
    by (simp_all add: example_Config_def)
  with s m show ?thesis by auto
qed


lemma NewClient_remotes_error_parsed:
  assumes "decode_remotes (DecodeRemote ext) (Remotes c) (False, False, False, []) = Inl err"
    and "url_Parse (Server (fst (NewClient ext c))) = Inr u"
  shows "snd (NewClient ext c) = Inl err"
  using NewClient_remotes_error [OF assms(1)] assms(2) by auto

lemma NewClient_remotes_error_fails:
  assumes "decode_remotes (DecodeRemote ext) (Remotes c) (False, False, False, []) = Inl err"
  shows "construction_fails (NewClient ext c)"
  using NewClient_remotes_error [OF assms] by (auto simp: construction_fails_def)

lemma sublist_decode_message:
  "sublist s (Error (errors_New (''Failed to decode remote '' @ [CHR 0x27] @ s @ [CHR 0x27]
                  @ '': '' @ msg)))"
proof -
  have "sublist s ((''Failed to decode remote '' @ [CHR 0x27]) @ s @ ([CHR 0x27] @ '': '' @ msg))"
    by (rule sublist_appendI)
  then show ?thesis by (simp add: errors_New_def)
qed

text \<open>
  C5, as the code has it. When some specification of the list fails to decode,
  construction fails; the error is the decoding error that names the first such
  specification, provided the server URL parses and at most one stdio-flagged
  specification comes before it. When two or more specifications are stdio-flagged,
  construction fails. In both cases no client is returned.
\<close>

theorem NewClient_remotes_failure:
  "((\<exists>s \<in> set (Remotes c). decode_fails (DecodeRemote ext) s) \<longrightarrow>
      construction_fails (NewClient ext c)) \<and>
   (2 \<le> length (filter (stdio_flagged (DecodeRemote ext)) (Remotes c)) \<longrightarrow>
      construction_fails (NewClient ext c)) \<and>
   (url_Parse (Server (fst (NewClient ext c))) = Inr u \<and>
    Remotes c = pre @ s # post \<and>
    (\<forall>t \<in> set pre. \<not> decode_fails (DecodeRemote ext) t) \<and>
    length (filter (stdio_flagged (DecodeRemote ext)) pre) \<le> 1 \<and>
    DecodeRemote ext s = Inl err \<longrightarrow>
      snd (NewClient ext c) =
        Inl (errors_New (''Failed to decode remote '' @ [CHR 0x27] @ s @ [CHR 0x27] @ '': ''
               @ Error err)) \<and>
      (\<exists>e. snd (NewClient ext c) = Inl e \<and> sublist s (Error e)))"
proof (intro conjI impI)
  assume "\<exists>s \<in> set (Remotes c). decode_fails (DecodeRemote ext) s"
  then obtain e where
    "decode_remotes (DecodeRemote ext) (Remotes c) (False, False, False, []) = Inl e"
    using decode_remotes_fails by blast
  then show "construction_fails (NewClient ext c)"
    by (rule NewClient_remotes_error_fails)
next
  assume "2 \<le> length (filter (stdio_flagged (DecodeRemote ext)) (Remotes c))"
  then have "2 \<le> (if False then 1 else 0)
                 + length (filter (stdio_flagged (DecodeRemote ext)) (Remotes c))"
    by simp
  then obtain e where
    "decode_remotes (DecodeRemote ext) (Remotes c) (False, False, False, []) = Inl e"
    using decode_remotes_two_stdio by blast
  then show "construction_fails (NewClient ext c)"
    by (rule NewClient_remotes_error_fails)
next
  assume h: "url_Parse (Server (fst (NewClient ext c))) = Inr u \<and>
    Remotes c = pre @ s # post \<and>
    (\<forall>t \<in> set pre. \<not> decode_fails (DecodeRemote ext) t) \<and>
    length (filter (stdio_flagged (DecodeRemote ext)) pre) \<le> 1 \<and>
    DecodeRemote ext s = Inl err"
  let ?e = "errors_New (''Failed to decode remote '' @ [CHR 0x27] @ s @ [CHR 0x27] @ '': ''
               @ Error err)"
  have "(if False then 1 else 0) + length (filter (stdio_flagged (DecodeRemote ext)) pre) \<le> 1"
    using h by simp
  with h have "decode_remotes (DecodeRemote ext) (pre @ s # post) (False, False, False, []) = Inl ?e"
    using decode_remotes_first_failure [of pre "DecodeRemote ext" False s err post False False "[]"]
    by blast
  with h have res: "snd (NewClient ext c) = Inl ?e"
    using NewClient_remotes_error_parsed [of ext c ?e u] by simp
  then show "snd (NewClient ext c) = Inl ?e" .
  from res show "\<exists>e. snd (NewClient ext c) = Inl e \<and> sublist s (Error e)"
    using sublist_decode_message [of s "Error err"] by blast
qed

lemma example_decodes:
  "example_DecodeRemote ''stdio:a.example:22'' =
     Inr \<lparr>Socks = False, Reverse = False, Stdio = True, spec = ''stdio:a.example:22''\<rparr>"
  "example_DecodeRemote ''stdio:b.example:22'' =
     Inr \<lparr>Socks = False, Reverse = False, Stdio = True, spec = ''stdio:b.example:22''\<rparr>"
  "example_DecodeRemote ''1:2:3:4:5'' = Inl (errors_New ''Invalid remote'')"
  by (simp_all add: example_DecodeRemote_def strings_HasPrefix_def)

theorem NewClient_remotes_failure_witness:
  "construction_fails (NewClient example_externals
     (example_Config\<lparr>Remotes := [''stdio:a.example:22'', ''stdio:b.example:22'']\<rparr>)) \<and>
   snd (NewClient example_externals
     (example_Config\<lparr>Remotes := [''stdio:a.example:22'', ''1:2:3:4:5'',
                                    ''stdio:b.example:22'']\<rparr>)) =
     Inl (errors_New ''Failed to decode remote '1:2:3:4:5': Invalid remote'')"
proof -
  let ?A = "example_Config\<lparr>Remotes := [''stdio:a.example:22'', ''stdio:b.example:22'']\<rparr>"
  let ?B = "example_Config\<lparr>Remotes := [''stdio:a.example:22'', ''1:2:3:4:5'',
                                    ''stdio:b.example:22'']\<rparr>"
  let ?u = "\<lparr>Scheme = ''http'', Opaque = [], User = None, Host = ''example.com'', Path = [],
          RawQuery = [], Fragment = []\<rparr>"
  have p: "url_Parse (Server (fst (NewClient example_externals ?B))) = Inr ?u"
    by (simp add: NewClient_config example_Config_def strings_HasPrefix_def url_Parse_example)
  have d: "DecodeRemote example_externals = example_DecodeRemote"
    by (simp add: example_externals_def)
  have f: "stdio_flagged example_DecodeRemote ''stdio:a.example:22''"
       "stdio_flagged example_DecodeRemote ''stdio:b.example:22''"
       "\<not> decode_fails example_DecodeRemote ''stdio:a.example:22''"
    by (simp_all add: stdio_flagged_def decode_fails_def example_decodes)
  show ?thesis
    using NewClient_remotes_failure [of ?A example_externals]
      NewClient_remotes_failure [of ?B example_externals ?u "[''stdio:a.example:22'']"
        "''1:2:3:4:5''" "[''stdio:b.example:22'']" "errors_New ''Invalid remote''"]
    by (simp add: p d f example_decodes errors_New_def)
qed

text \<open>
  C5, as stated, fails: in the list below the third specification fails to decode,
  and construction fails with the error of the second stdio-flagged specification,
  whose text does not contain the third.
\<close>

theorem NewClient_remotes_failure_counterexample:
  "decode_fails (DecodeRemote example_externals) ''1:2:3:4:5'' \<and>
   snd (NewClient example_externals
     (example_Config\<lparr>Remotes := [''stdio:a.example:22'', ''stdio:b.example:22'',
                                    ''1:2:3:4:5'']\<rparr>)) =
     Inl (errors_New ''Only one stdio is allowed'') \<and>
   \<not> sublist ''1:2:3:4:5'' ''Only one stdio is allowed''"
proof -
  have "snd (NewClient example_externals
     (example_Config\<lparr>Remotes := [''stdio:a.example:22'', ''stdio:b.example:22'',
                                    ''1:2:3:4:5'']\<rparr>)) =
     Inl (errors_New ''Only one stdio is allowed'')"
    by code_simp
  moreover have "decode_fails (DecodeRemote example_externals) ''1:2:3:4:5''"
    by (simp add: decode_fails_def example_externals_def example_decodes)
  moreover have "\<not> sublist ''1:2:3:4:5'' ''Only one stdio is allowed''"
    by (simp add: strings_Contains_iff [symmetric] strings_HasPrefix_def)
  ultimately show ?thesis by blast
qed


















end
